theory Spec2Isabelle
  imports Main "HOL-Library.Sublist"
begin

section \<open>EdUTEND: QR attendance sessions and attendance marking\<close>

text \<open>
  A shallow embedding of the Mongoose models \<^verbatim>\<open>QR\<close> (src/backend/models/QR.js) and
  \<^verbatim>\<open>Attendance\<close> (the first file of src/unnamed/part_004, required by the routes as
  \<^verbatim>\<open>../models/Attendance\<close>), of the middleware the routes require as
  \<^verbatim>\<open>../middleware/auth\<close> (the last file held in src/backend/README.md) and of the
  Express handlers in src/backend/routes/qr.js and src/backend/routes/attendance.js.

  Conventions of the embedding:
  \<^item> a JavaScript \<^verbatim>\<open>Date\<close> is its number of milliseconds since the epoch, an \<open>int\<close>;
    every \<^verbatim>\<open>new Date()\<close> / \<^verbatim>\<open>Date.now()\<close> read of the clock is an argument of the
    function that performs it;
  \<^item> a MongoDB \<^verbatim>\<open>ObjectId\<close> is a natural number; identifiers in a query string are
    taken to be well-formed (the cast error of a malformed id is not modelled);
  \<^item> a collection is the list of its documents, in insertion order; no operation of
    the code removes a document;
  \<^item> the automatic \<^verbatim>\<open>createdAt\<close>/\<^verbatim>\<open>updatedAt\<close> stamps of the QR model are left out
    (no handler reads them but to sort listings);
  \<^item> every handler returns its JSON reply together with the database it leaves.
\<close>

subsection \<open>JavaScript helpers\<close>

type_synonym oid = nat
type_synonym time = int

text \<open>White space as \<^verbatim>\<open>String.prototype.trim\<close> and \<^verbatim>\<open>parseInt\<close> skip it (ASCII part).\<close>

definition is_space :: "char \<Rightarrow> bool" where
  "is_space c = (c \<in> set [CHR '' '', CHR 0x09, CHR 0x0A, CHR 0x0B, CHR 0x0C, CHR 0x0D])"

definition js_trim :: "string \<Rightarrow> string" where
  "js_trim s = rev (dropWhile is_space (rev (dropWhile is_space s)))"

text \<open>A query parameter is absent (\<open>None\<close>) or a string; \<^verbatim>\<open>!p\<close> holds for an absent
  parameter and for the empty string.\<close>

definition falsy :: "string option \<Rightarrow> bool" where
  "falsy p = (case p of None \<Rightarrow> True | Some s \<Rightarrow> s = [])"

text \<open>\<^verbatim>\<open>parseInt(s)\<close> without a radix: leading white space, an optional sign, an optional
  \<^verbatim>\<open>0x\<close> prefix, then the longest prefix of digits; \<open>None\<close> is \<^verbatim>\<open>NaN\<close>.\<close>

definition digit_of :: "nat \<Rightarrow> char \<Rightarrow> nat option" where
  "digit_of radix c =
     (let n = (of_char c :: nat) in
      if 48 \<le> n \<and> n \<le> 57 then Some (n - 48)
      else if radix = 16 \<and> 97 \<le> n \<and> n \<le> 102 then Some (n - 87)
      else if radix = 16 \<and> 65 \<le> n \<and> n \<le> 70 then Some (n - 55)
      else None)"

fun digits_prefix :: "nat \<Rightarrow> string \<Rightarrow> nat list" where
  "digits_prefix radix [] = []"
| "digits_prefix radix (c # cs) =
     (case digit_of radix c of None \<Rightarrow> [] | Some d \<Rightarrow> d # digits_prefix radix cs)"

definition digits_value :: "nat \<Rightarrow> nat list \<Rightarrow> nat" where
  "digits_value radix ds = foldl (\<lambda>acc d. acc * radix + d) 0 ds"

definition parseInt :: "string \<Rightarrow> int option" where
  "parseInt s =
     (let s1 = dropWhile is_space s;
          neg = (take 1 s1 = ''-'');
          s2 = (if take 1 s1 = ''-'' \<or> take 1 s1 = ''+'' then drop 1 s1 else s1);
          radix = (if take 2 s2 = ''0x'' \<or> take 2 s2 = ''0X'' then 16 else 10);
          s3 = (if radix = 16 then drop 2 s2 else s2);
          ds = digits_prefix radix s3
      in if ds = [] then None
         else Some ((if neg then - 1 else 1) * int (digits_value radix ds)))"

text \<open>\<^verbatim>\<open>ObjectId.prototype.toString\<close>: the 24 hexadecimal digits of the identifier.\<close>

definition hex_char :: "nat \<Rightarrow> char" where
  "hex_char d = ''0123456789abcdef'' ! (d mod 16)"

fun to_hex :: "nat \<Rightarrow> nat \<Rightarrow> string" where
  "to_hex 0 n = []"
| "to_hex (Suc k) n = to_hex k (n div 16) @ [hex_char n]"

definition toString :: "oid \<Rightarrow> string" where
  "toString i = to_hex 24 i"

text \<open>
  The values the handlers compare with \<^verbatim>\<open>===\<close> and \<^verbatim>\<open>!==\<close>. The left operand is always
  the result of \<^verbatim>\<open>x.toString()\<close> or \<^verbatim>\<open>x?.toString()\<close>: a primitive string, or
  \<^verbatim>\<open>undefined\<close> (\<open>None\<close>). Strict equality converts nothing: operands of different
  types are never equal, so a string is never \<^verbatim>\<open>===\<close> to an \<^verbatim>\<open>ObjectId\<close> object.
\<close>

datatype js_value = JUndefined | JString string | JObjectId oid

fun strict_eq :: "string option \<Rightarrow> js_value \<Rightarrow> bool" where
  "strict_eq None JUndefined = True"
| "strict_eq (Some a) (JString b) = (a = b)"
| "strict_eq _ _ = False"

subsection \<open>Users, courses and the authentication middleware\<close>

datatype user_role = Admin | Lecturer | Student

record user =
  u_id :: oid
  u_name :: string
  u_role :: user_role
  u_isActive :: bool

record enrolment =
  e_student :: oid

record course =
  c_id :: oid
  c_name :: string
  c_code :: string
  c_lecturer :: "oid option"
  c_students :: "enrolment list"

text \<open>\<^verbatim>\<open>req.user\<close> as \<^verbatim>\<open>authenticateToken\<close> builds it: \<^verbatim>\<open>userId\<close> is \<^verbatim>\<open>user._id\<close>, the
  \<^verbatim>\<open>ObjectId\<close> object itself, not its string.\<close>

record req_user =
  userId :: oid
  role :: user_role

datatype 'a reply = Reply (r_code: nat) (r_success: bool) (r_message: string) (r_data: "'a option")

datatype token = NoToken | InvalidToken | ExpiredToken | Decoded oid

definition user_findById :: "user list \<Rightarrow> oid \<Rightarrow> user option" where
  "user_findById us i = find (\<lambda>u. u_id u = i) us"

definition course_findById :: "course list \<Rightarrow> oid \<Rightarrow> course option" where
  "course_findById cs i = find (\<lambda>c. c_id c = i) cs"

definition authenticateToken :: "user list \<Rightarrow> token \<Rightarrow> 'a reply + req_user" where
  "authenticateToken us t =
     (case t of
        NoToken \<Rightarrow> Inl (Reply 401 False ''Access token required'' None)
      | InvalidToken \<Rightarrow> Inl (Reply 401 False ''Invalid token'' None)
      | ExpiredToken \<Rightarrow> Inl (Reply 401 False ''Token expired'' None)
      | Decoded i \<Rightarrow>
          (case user_findById us i of
             None \<Rightarrow> Inl (Reply 401 False ''Invalid token - user not found'' None)
           | Some u \<Rightarrow>
               if \<not> u_isActive u then Inl (Reply 401 False ''Account is deactivated'' None)
               else Inr \<lparr>userId = u_id u, role = u_role u\<rparr>))"

text \<open>\<^verbatim>\<open>requireRole(roles)\<close>; \<^verbatim>\<open>requireLecturer = requireRole(['admin', 'lecturer'])\<close>.
  \<open>None\<close> is a request on which no earlier middleware has set \<^verbatim>\<open>req.user\<close>.\<close>

definition requireRole :: "user_role list \<Rightarrow> req_user option \<Rightarrow> 'a reply + req_user" where
  "requireRole roles ru =
     (case ru of
        None \<Rightarrow> Inl (Reply 401 False ''Authentication required'' None)
      | Some u \<Rightarrow>
          if role u \<notin> set roles then Inl (Reply 403 False ''Insufficient permissions'' None)
          else Inr u)"

definition requireLecturer :: "req_user option \<Rightarrow> 'a reply + req_user" where
  "requireLecturer = requireRole [Admin, Lecturer]"

subsection \<open>The QR session model (src/backend/models/QR.js)\<close>

datatype qr_status = Active | Expired | Cancelled

text \<open>A QR document. \<^verbatim>\<open>qrCodeData\<close> is \<open>None\<close> when the field is not set.\<close>

record qr_doc =
  qr_id :: oid
  qr_sessionId :: string
  qr_courseId :: oid
  qr_createdBy :: oid
  qr_title :: string
  qr_notes :: string
  qr_status :: qr_status
  qr_expiresAt :: time
  qr_qrCodeData :: "string option"
  qr_scannedCount :: nat
  qr_lastScannedAt :: "time option"

datatype save_error = ValidationError | DuplicateKey

text \<open>The schema's validators, which Mongoose runs before the other \<^verbatim>\<open>pre('save')\<close>
  hooks: \<^verbatim>\<open>required\<close> (a required string may not be empty) and \<^verbatim>\<open>maxlength\<close>.\<close>

definition qr_validate :: "qr_doc \<Rightarrow> bool" where
  "qr_validate d =
     (qr_sessionId d \<noteq> [] \<and> qr_title d \<noteq> [] \<and> length (qr_title d) \<le> 100 \<and>
      length (qr_notes d) \<le> 200 \<and>
      (case qr_qrCodeData d of None \<Rightarrow> False | Some s \<Rightarrow> s \<noteq> []))"

text \<open>\<^verbatim>\<open>qrSchema.pre('save')\<close>: a \<^verbatim>\<open>Date\<close> object is always truthy, so the guard is the
  comparison alone.\<close>

definition qr_pre_save :: "time \<Rightarrow> qr_doc \<Rightarrow> qr_doc" where
  "qr_pre_save now d = (if now > qr_expiresAt d then d\<lparr>qr_status := Expired\<rparr> else d)"

text \<open>\<^verbatim>\<open>doc.save()\<close>: validation, the hook, then the write. A new document is inserted
  (the collection has unique indexes on \<^verbatim>\<open>_id\<close> and \<^verbatim>\<open>sessionId\<close>); a loaded document
  replaces the stored one with its \<^verbatim>\<open>_id\<close>. The result is the document as written and
  the collection.\<close>

definition qr_save :: "time \<Rightarrow> bool \<Rightarrow> qr_doc \<Rightarrow> qr_doc list \<Rightarrow> save_error + (qr_doc \<times> qr_doc list)" where
  "qr_save now isNew d store =
     (if \<not> qr_validate d then Inl ValidationError
      else let d' = qr_pre_save now d in
        if isNew then
          (if list_ex (\<lambda>e. qr_id e = qr_id d' \<or> qr_sessionId e = qr_sessionId d') store
           then Inl DuplicateKey
           else Inr (d', store @ [d']))
        else Inr (d', map (\<lambda>e. if qr_id e = qr_id d' then d' else e) store))"

definition qr_findById :: "qr_doc list \<Rightarrow> oid \<Rightarrow> qr_doc option" where
  "qr_findById store i = find (\<lambda>d. qr_id d = i) store"

text \<open>The instance methods: each assigns fields of the loaded document and saves it.\<close>

definition qr_expire :: "time \<Rightarrow> time \<Rightarrow> qr_doc \<Rightarrow> qr_doc list \<Rightarrow> save_error + (qr_doc \<times> qr_doc list)" where
  "qr_expire now tsave d store =
     qr_save tsave False (d\<lparr>qr_status := Expired, qr_expiresAt := now\<rparr>) store"

definition qr_cancel :: "time \<Rightarrow> qr_doc \<Rightarrow> qr_doc list \<Rightarrow> save_error + (qr_doc \<times> qr_doc list)" where
  "qr_cancel tsave d store = qr_save tsave False (d\<lparr>qr_status := Cancelled\<rparr>) store"

definition qr_recordScan :: "time \<Rightarrow> time \<Rightarrow> qr_doc \<Rightarrow> qr_doc list \<Rightarrow> save_error + (qr_doc \<times> qr_doc list)" where
  "qr_recordScan now tsave d store =
     qr_save tsave False
       (d\<lparr>qr_scannedCount := qr_scannedCount d + 1, qr_lastScannedAt := Some now\<rparr>) store"

text \<open>\<^verbatim>\<open>cleanupExpired\<close>: the loop over the sessions found; a save that throws ends the
  loop, and the saves before it stay written.\<close>

fun cleanup_loop :: "time \<Rightarrow> qr_doc list \<Rightarrow> qr_doc list \<Rightarrow> save_error option \<times> qr_doc list" where
  "cleanup_loop tsave [] store = (None, store)"
| "cleanup_loop tsave (s # ss) store =
     (case qr_save tsave False (s\<lparr>qr_status := Expired\<rparr>) store of
        Inl e \<Rightarrow> (Some e, store)
      | Inr (_, store') \<Rightarrow> cleanup_loop tsave ss store')"

definition cleanupExpired :: "time \<Rightarrow> time \<Rightarrow> qr_doc list \<Rightarrow> (save_error + nat) \<times> qr_doc list" where
  "cleanupExpired now tsave store =
     (let expiredSessions = filter (\<lambda>s. qr_status s = Active \<and> qr_expiresAt s < now) store in
      case cleanup_loop tsave expiredSessions store of
        (Some e, store') \<Rightarrow> (Inl e, store')
      | (None, store') \<Rightarrow> (Inr (length expiredSessions), store'))"

subsection \<open>The attendance model (src/unnamed/part_004)\<close>

datatype att_status = Present | Absent | Late | Excused

record att_doc =
  att_id :: oid
  att_studentId :: oid
  att_courseId :: oid
  att_date :: time
  att_status :: att_status
  att_notes :: "string option"
  att_markedBy :: oid
  att_qrSessionId :: "oid option"
  att_updatedAt :: time

definition att_status_of :: "string \<Rightarrow> att_status option" where
  "att_status_of s =
     (if s = ''present'' then Some Present
      else if s = ''absent'' then Some Absent
      else if s = ''late'' then Some Late
      else if s = ''excused'' then Some Excused
      else None)"

definition att_validate :: "att_doc \<Rightarrow> bool" where
  "att_validate a = (case att_notes a of None \<Rightarrow> True | Some n \<Rightarrow> length n \<le> 200)"

text \<open>\<^verbatim>\<open>date.setHours(0, 0, 0, 0)\<close>: the start of the local day; \<open>tz\<close> is the offset of
  the server's local time from UTC, in milliseconds.\<close>

definition startOfDay :: "int \<Rightarrow> time \<Rightarrow> time" where
  "startOfDay tz t = t - (t + tz) mod 86400000"

text \<open>The key of the unique compound index \<^verbatim>\<open>{studentId: 1, courseId: 1, date: 1}\<close>.\<close>

definition att_key :: "att_doc \<Rightarrow> oid \<times> oid \<times> time" where
  "att_key a = (att_studentId a, att_courseId a, att_date a)"

text \<open>
  \<^verbatim>\<open>save()\<close> of a new attendance document: validation, the \<^verbatim>\<open>pre('save')\<close> hook that
  moves the date to the start of its day, then the insert, which the store refuses
  when the \<^verbatim>\<open>_id\<close> or the key of the unique index is already there.
\<close>

definition att_save_new :: "int \<Rightarrow> att_doc \<Rightarrow> att_doc list \<Rightarrow> save_error + (att_doc \<times> att_doc list)" where
  "att_save_new tz a store =
     (if \<not> att_validate a then Inl ValidationError
      else let a' = a\<lparr>att_date := startOfDay tz (att_date a)\<rparr> in
        if list_ex (\<lambda>e. att_id e = att_id a' \<or> att_key e = att_key a') store
        then Inl DuplicateKey
        else Inr (a', store @ [a']))"

text \<open>
  \<^verbatim>\<open>save()\<close> of a loaded attendance document, as the mark handler uses it: the paths
  the handler assigned (\<^verbatim>\<open>status\<close>, \<^verbatim>\<open>notes\<close>, \<^verbatim>\<open>updatedAt\<close>) are written to the stored
  document. The hook's \<^verbatim>\<open>setHours\<close> changes the \<^verbatim>\<open>Date\<close> object of the document in
  memory (the one returned), which Mongoose does not track as a modification, so the
  stored date stays.
\<close>

definition att_save_existing :: "int \<Rightarrow> att_doc \<Rightarrow> att_doc list \<Rightarrow> save_error + (att_doc \<times> att_doc list)" where
  "att_save_existing tz a store =
     (if \<not> att_validate a then Inl ValidationError
      else Inr (a\<lparr>att_date := startOfDay tz (att_date a)\<rparr>,
                map (\<lambda>e. if att_id e = att_id a
                          then e\<lparr>att_status := att_status a, att_notes := att_notes a,
                                 att_updatedAt := att_updatedAt a\<rparr>
                          else e) store))"

definition att_findOne :: "att_doc list \<Rightarrow> oid \<Rightarrow> oid \<Rightarrow> time \<Rightarrow> att_doc option" where
  "att_findOne store s c d =
     find (\<lambda>a. att_studentId a = s \<and> att_courseId a = c \<and> att_date a = d) store"

subsection \<open>The database\<close>

record db =
  db_users :: "user list"
  db_courses :: "course list"
  db_qrs :: "qr_doc list"
  db_attendance :: "att_doc list"

subsection \<open>The QR routes (src/backend/routes/qr.js)\<close>

text \<open>The payload a QR image carries: \<^verbatim>\<open>{sessionId, courseId, expiresAt}\<close>. A field of a
  scanned payload may be absent; \<open>p_expiresAt\<close> is \<^verbatim>\<open>new Date(expiresAt)\<close>, \<open>None\<close> for
  an invalid date.\<close>

record qr_payload =
  p_sessionId :: "oid option"
  p_courseId :: "oid option"
  p_expiresAt :: "time option"

record gen_query =
  g_courseId :: "oid option"
  g_duration :: "string option"
  g_title :: "string option"
  g_notes :: "string option"

record gen_data =
  gd_qrSession :: qr_doc
  gd_qrCodeImage :: string
  gd_expiresAt :: time
  gd_duration :: int

text \<open>\<^verbatim>\<open>a || b\<close> on an optional string.\<close>

definition or_else :: "string option \<Rightarrow> string \<Rightarrow> string" where
  "or_else p dflt = (case p of None \<Rightarrow> dflt | Some s \<Rightarrow> if s = [] then dflt else s)"

text \<open>
  \<^verbatim>\<open>GET /generate\<close>, behind \<^verbatim>\<open>requireLecturer\<close>. \<open>toDataURL\<close> stands for
  \<^verbatim>\<open>QRCode.toDataURL(JSON.stringify(...))\<close>, \<open>None\<close> when it throws; \<open>newId\<close> and \<open>sid\<close>
  are the \<^verbatim>\<open>_id\<close> and the random \<^verbatim>\<open>sessionId\<close> the new document gets. The object given
  to \<^verbatim>\<open>new QR\<close> has no \<^verbatim>\<open>qrCodeData\<close>; \<^verbatim>\<open>title\<close> and \<^verbatim>\<open>notes\<close> are trimmed by the schema.
\<close>

definition generate ::
  "(qr_payload \<Rightarrow> string option) \<Rightarrow> time \<Rightarrow> time \<Rightarrow> oid \<Rightarrow> string \<Rightarrow> req_user option \<Rightarrow>
   gen_query \<Rightarrow> db \<Rightarrow> gen_data reply \<times> db" where
  "generate toDataURL now tsave newId sid ru q d =
     (case requireLecturer ru of
        Inl r \<Rightarrow> (r, d)
      | Inr u \<Rightarrow>
     (case g_courseId q of
        None \<Rightarrow> (Reply 400 False ''courseId and duration are required query parameters'' None, d)
      | Some courseId \<Rightarrow>
     if falsy (g_duration q)
     then (Reply 400 False ''courseId and duration are required query parameters'' None, d)
     else
     (case parseInt (or_else (g_duration q) []) of
        None \<Rightarrow> (Reply 400 False ''Duration must be between 1 and 480 minutes'' None, d)
      | Some durationNum \<Rightarrow>
     if durationNum < 1 \<or> durationNum > 480
     then (Reply 400 False ''Duration must be between 1 and 480 minutes'' None, d)
     else
     (case course_findById (db_courses d) courseId of
        None \<Rightarrow> (Reply 404 False ''Course not found'' None, d)
      | Some c \<Rightarrow>
     if role u = Lecturer \<and>
        \<not> strict_eq (map_option toString (c_lecturer c)) (JObjectId (userId u))
     then (Reply 403 False ''You can only generate QR codes for your own courses'' None, d)
     else
       let qrData = \<lparr>qr_id = newId, qr_sessionId = sid, qr_courseId = courseId,
                      qr_createdBy = userId u,
                      qr_title = js_trim (or_else (g_title q) (''Attendance Session - '' @ c_name c)),
                      qr_notes = js_trim (or_else (g_notes q) []),
                      qr_status = Active,
                      qr_expiresAt = now + durationNum * 60 * 1000,
                      qr_qrCodeData = None,
                      qr_scannedCount = 0, qr_lastScannedAt = None\<rparr>
       in
       (case qr_save tsave True qrData (db_qrs d) of
          Inl e \<Rightarrow> (Reply 500 False ''Server error while generating QR code'' None, d)
        | Inr (qrSession, qrs') \<Rightarrow>
            (case toDataURL \<lparr>p_sessionId = Some (qr_id qrSession), p_courseId = Some courseId,
                              p_expiresAt = Some (qr_expiresAt qrSession)\<rparr> of
               None \<Rightarrow> (Reply 500 False ''Server error while generating QR code'' None,
                         d\<lparr>db_qrs := qrs'\<rparr>)
             | Some qrCodeImage \<Rightarrow>
                 (Reply 201 True ''QR code generated successfully''
                    (Some \<lparr>gd_qrSession = qrSession, gd_qrCodeImage = qrCodeImage,
                           gd_expiresAt = qr_expiresAt qrSession, gd_duration = durationNum\<rparr>),
                  d\<lparr>db_qrs := qrs'\<rparr>)))))))"

text \<open>
  The \<^verbatim>\<open>qrCode\<close> query parameter of \<^verbatim>\<open>GET /validate\<close>: absent or empty, a string that
  \<^verbatim>\<open>JSON.parse\<close> rejects, the JSON \<^verbatim>\<open>null\<close> (destructuring it throws), or a value whose
  three fields are read.
\<close>

datatype qr_param = QMissing | QUnparsable | QNull | QObject qr_payload

record valid_info =
  v_sessionId :: "oid option"
  v_courseId :: "oid option"
  v_courseName :: string
  v_courseCode :: string
  v_expiresAt :: time
  v_title :: string
  v_notes :: string
  v_createdBy :: string

datatype validate_data =
    ExpiredData "oid option" "oid option" "time option"
  | NotActiveData "oid option" "oid option" qr_status
  | ValidData valid_info

text \<open>\<^verbatim>\<open>Model.findById(undefined)\<close> finds nothing.\<close>

definition qr_findById_opt :: "qr_doc list \<Rightarrow> oid option \<Rightarrow> qr_doc option" where
  "qr_findById_opt store i = (case i of None \<Rightarrow> None | Some j \<Rightarrow> qr_findById store j)"

definition course_findById_opt :: "course list \<Rightarrow> oid option \<Rightarrow> course option" where
  "course_findById_opt cs i = (case i of None \<Rightarrow> None | Some j \<Rightarrow> course_findById cs j)"

text \<open>\<^verbatim>\<open>new Date() > new Date(expiresAt)\<close>: false for an invalid date.\<close>

definition date_gt :: "time \<Rightarrow> time option \<Rightarrow> bool" where
  "date_gt now e = (case e of None \<Rightarrow> False | Some t \<Rightarrow> now > t)"

text \<open>\<^verbatim>\<open>course.students.some(s => s.student.toString() === req.user.userId)\<close>.\<close>

definition some_student :: "course \<Rightarrow> req_user \<Rightarrow> bool" where
  "some_student c u =
     list_ex (\<lambda>s. strict_eq (Some (toString (e_student s))) (JObjectId (userId u))) (c_students c)"

text \<open>
  \<^verbatim>\<open>GET /validate\<close>, behind \<^verbatim>\<open>authenticateToken\<close>. The session is read with its course
  and its creator populated; a reference that resolves to nothing is \<^verbatim>\<open>null\<close>, and
  reading \<^verbatim>\<open>.name\<close> of it for the success reply throws (the 500 reply). The handler
  writes nothing.
\<close>

definition validate :: "time \<Rightarrow> req_user \<Rightarrow> qr_param \<Rightarrow> db \<Rightarrow> validate_data reply \<times> db" where
  "validate now u qrCode d =
     (case qrCode of
        QMissing \<Rightarrow> (Reply 400 False ''QR code data is required as query parameter'' None, d)
      | QUnparsable \<Rightarrow> (Reply 400 False ''Invalid QR code format'' None, d)
      | QNull \<Rightarrow> (Reply 500 False ''Server error while validating QR code'' None, d)
      | QObject qrData \<Rightarrow>
     (case qr_findById_opt (db_qrs d) (p_sessionId qrData) of
        None \<Rightarrow> (Reply 404 False ''QR session not found'' None, d)
      | Some qrSession \<Rightarrow>
     if date_gt now (p_expiresAt qrData)
     then (Reply 400 False ''QR code has expired''
             (Some (ExpiredData (p_sessionId qrData) (p_courseId qrData) (p_expiresAt qrData))), d)
     else if qr_status qrSession \<noteq> Active
     then (Reply 400 False ''QR session is not active''
             (Some (NotActiveData (p_sessionId qrData) (p_courseId qrData) (qr_status qrSession))), d)
     else if role u = Student \<and>
             (case course_findById_opt (db_courses d) (p_courseId qrData) of
                None \<Rightarrow> True
              | Some course \<Rightarrow> \<not> some_student course u)
     then (Reply 403 False ''You are not enrolled in this course'' None, d)
     else
     (case course_findById (db_courses d) (qr_courseId qrSession) of
        None \<Rightarrow> (Reply 500 False ''Server error while validating QR code'' None, d)
      | Some pc \<Rightarrow>
     (case user_findById (db_users d) (qr_createdBy qrSession) of
        None \<Rightarrow> (Reply 500 False ''Server error while validating QR code'' None, d)
      | Some pu \<Rightarrow>
          (Reply 200 True ''QR code is valid''
             (Some (ValidData \<lparr>v_sessionId = p_sessionId qrData, v_courseId = p_courseId qrData,
                                v_courseName = c_name pc, v_courseCode = c_code pc,
                                v_expiresAt = qr_expiresAt qrSession, v_title = qr_title qrSession,
                                v_notes = qr_notes qrSession, v_createdBy = u_name pu\<rparr>)), d)))))"

text \<open>\<^verbatim>\<open>PUT /:id/expire\<close>, behind \<^verbatim>\<open>requireLecturer\<close>.\<close>

definition expire_route :: "time \<Rightarrow> time \<Rightarrow> oid \<Rightarrow> req_user option \<Rightarrow> db \<Rightarrow> qr_doc reply \<times> db" where
  "expire_route now tsave i ru d =
     (case requireLecturer ru of
        Inl r \<Rightarrow> (r, d)
      | Inr u \<Rightarrow>
     (case qr_findById (db_qrs d) i of
        None \<Rightarrow> (Reply 404 False ''QR session not found'' None, d)
      | Some qrSession \<Rightarrow>
     if role u = Lecturer \<and>
        \<not> strict_eq (Some (toString (qr_createdBy qrSession))) (JObjectId (userId u))
     then (Reply 403 False ''You can only expire your own QR sessions'' None, d)
     else
     (case qr_save tsave False (qrSession\<lparr>qr_status := Expired, qr_expiresAt := now\<rparr>) (db_qrs d) of
        Inl e \<Rightarrow> (Reply 500 False ''Server error while expiring QR session'' None, d)
      | Inr (saved, qrs') \<Rightarrow>
          (Reply 200 True ''QR session expired successfully'' (Some saved), d\<lparr>db_qrs := qrs'\<rparr>))))"

subsection \<open>The mark route (src/backend/routes/attendance.js)\<close>

text \<open>The \<^verbatim>\<open>date\<close> parameter: absent or empty, a string that is no date (the query
  with it throws a cast error), or the instant \<^verbatim>\<open>new Date(date)\<close>.\<close>

datatype date_param = DateMissing | DateInvalid | DateOf time

record mark_query =
  m_studentId :: "oid option"
  m_courseId :: "oid option"
  m_date :: date_param
  m_status :: "string option"
  m_notes :: "string option"

text \<open>
  \<^verbatim>\<open>GET /mark\<close>, behind \<^verbatim>\<open>authenticateToken\<close> only. \<open>newId\<close> is the \<^verbatim>\<open>_id\<close> a new
  record gets; \<open>now\<close> is the clock read for \<^verbatim>\<open>updatedAt\<close>. The handler is given in two
  parts: \<open>mark_upsert\<close> is its second half, from the \<^verbatim>\<open>findOne\<close> on (the update of the
  record found, or the creation of a new one); \<open>mark\<close> is the checks before it.
\<close>

definition mark_upsert ::
  "int \<Rightarrow> time \<Rightarrow> oid \<Rightarrow> req_user \<Rightarrow> oid \<Rightarrow> oid \<Rightarrow> time \<Rightarrow> att_status \<Rightarrow> string option \<Rightarrow> db \<Rightarrow>
   att_doc reply \<times> db" where
  "mark_upsert tz now newId u studentId courseId t status notes d =
     (case att_findOne (db_attendance d) studentId courseId t of
        Some existingAttendance \<Rightarrow>
          (case att_save_existing tz
                  (existingAttendance
                     \<lparr>att_status := status,
                      att_notes := (if falsy notes then att_notes existingAttendance
                                    else map_option js_trim notes),
                      att_updatedAt := now\<rparr>)
                  (db_attendance d) of
             Inl e \<Rightarrow> (Reply 500 False ''Server error while marking attendance'' None, d)
           | Inr (saved, atts') \<Rightarrow>
               (Reply 200 True ''Attendance updated successfully'' (Some saved),
                d\<lparr>db_attendance := atts'\<rparr>))
      | None \<Rightarrow>
          (case att_save_new tz
                  \<lparr>att_id = newId, att_studentId = studentId, att_courseId = courseId,
                   att_date = t, att_status = status,
                   att_notes = map_option js_trim notes,
                   att_markedBy = userId u, att_qrSessionId = None,
                   att_updatedAt = now\<rparr>
                  (db_attendance d) of
             Inl e \<Rightarrow> (Reply 500 False ''Server error while marking attendance'' None, d)
           | Inr (saved, atts') \<Rightarrow>
               (Reply 201 True ''Attendance marked successfully'' (Some saved),
                d\<lparr>db_attendance := atts'\<rparr>)))"

definition mark :: "int \<Rightarrow> time \<Rightarrow> oid \<Rightarrow> req_user \<Rightarrow> mark_query \<Rightarrow> db \<Rightarrow> att_doc reply \<times> db" where
  "mark tz now newId u q d =
     (case m_studentId q of
        None \<Rightarrow>
          (Reply 400 False ''studentId, courseId, date, and status are required query parameters'' None, d)
      | Some studentId \<Rightarrow>
     (case m_courseId q of
        None \<Rightarrow>
          (Reply 400 False ''studentId, courseId, date, and status are required query parameters'' None, d)
      | Some courseId \<Rightarrow>
     if m_date q = DateMissing \<or> falsy (m_status q)
     then (Reply 400 False ''studentId, courseId, date, and status are required query parameters'' None, d)
     else
     (case att_status_of (or_else (m_status q) []) of
        None \<Rightarrow> (Reply 400 False ''Status must be present, absent, late, or excused'' None, d)
      | Some status \<Rightarrow>
     (case user_findById (db_users d) studentId of
        None \<Rightarrow> (Reply 404 False ''Student not found'' None, d)
      | Some student \<Rightarrow>
     if u_role student \<noteq> Student then (Reply 404 False ''Student not found'' None, d)
     else
     (case course_findById (db_courses d) courseId of
        None \<Rightarrow> (Reply 404 False ''Course not found'' None, d)
      | Some course \<Rightarrow>
     (case m_date q of
        DateOf t \<Rightarrow> mark_upsert tz now newId u studentId courseId t status (m_notes q) d
      | _ \<Rightarrow> (Reply 500 False ''Server error while marking attendance'' None, d)))))))"

text \<open>The route with its middleware.\<close>

definition mark_route :: "int \<Rightarrow> time \<Rightarrow> oid \<Rightarrow> token \<Rightarrow> mark_query \<Rightarrow> db \<Rightarrow> att_doc reply \<times> db" where
  "mark_route tz now newId t q d =
     (case authenticateToken (db_users d) t of
        Inl r \<Rightarrow> (r, d)
      | Inr u \<Rightarrow> mark tz now newId u q d)"

definition validate_route :: "time \<Rightarrow> token \<Rightarrow> qr_param \<Rightarrow> db \<Rightarrow> validate_data reply \<times> db" where
  "validate_route now t qrCode d =
     (case authenticateToken (db_users d) t of
        Inl r \<Rightarrow> (r, d)
      | Inr u \<Rightarrow> validate now u qrCode d)"

subsection \<open>Sequences of operations\<close>

text \<open>
  The operations that write to the database: the three routes above that can, and the
  methods of the QR model, each called on the document freshly loaded by its \<^verbatim>\<open>_id\<close>
  (a method called for an \<^verbatim>\<open>_id\<close> that is not stored does nothing). \<^verbatim>\<open>GET /validate\<close>
  is among them although it writes nothing.
\<close>

datatype op =
    Generate time time oid string "req_user option" gen_query
  | Validate time token qr_param
  | ExpireRoute time time oid "req_user option"
  | Mark time oid token mark_query
  | MethodExpire oid time time
  | MethodCancel oid time
  | MethodRecordScan oid time time
  | CleanupExpired time time

definition on_loaded ::
  "(qr_doc \<Rightarrow> qr_doc list \<Rightarrow> save_error + (qr_doc \<times> qr_doc list)) \<Rightarrow> oid \<Rightarrow> db \<Rightarrow> db" where
  "on_loaded m i d =
     (case qr_findById (db_qrs d) i of
        None \<Rightarrow> d
      | Some s \<Rightarrow> (case m s (db_qrs d) of Inl e \<Rightarrow> d | Inr (_, qrs') \<Rightarrow> d\<lparr>db_qrs := qrs'\<rparr>))"

fun exec :: "(qr_payload \<Rightarrow> string option) \<Rightarrow> int \<Rightarrow> op \<Rightarrow> db \<Rightarrow> db" where
  "exec toDataURL tz (Generate now tsave newId sid ru q) d =
     snd (generate toDataURL now tsave newId sid ru q d)"
| "exec toDataURL tz (Validate now t qrCode) d = snd (validate_route now t qrCode d)"
| "exec toDataURL tz (ExpireRoute now tsave i ru) d = snd (expire_route now tsave i ru d)"
| "exec toDataURL tz (Mark now newId t q) d = snd (mark_route tz now newId t q d)"
| "exec toDataURL tz (MethodExpire i now tsave) d = on_loaded (qr_expire now tsave) i d"
| "exec toDataURL tz (MethodCancel i tsave) d = on_loaded (qr_cancel tsave) i d"
| "exec toDataURL tz (MethodRecordScan i now tsave) d = on_loaded (qr_recordScan now tsave) i d"
| "exec toDataURL tz (CleanupExpired now tsave) d =
     d\<lparr>db_qrs := snd (cleanupExpired now tsave (db_qrs d))\<rparr>"

fun exec_all :: "(qr_payload \<Rightarrow> string option) \<Rightarrow> int \<Rightarrow> op list \<Rightarrow> db \<Rightarrow> db" where
  "exec_all toDataURL tz [] d = d"
| "exec_all toDataURL tz (x # xs) d = exec_all toDataURL tz xs (exec toDataURL tz x d)"

subsection \<open>Notions used to state the properties\<close>

text \<open>A session is in a terminal state in a collection: the document \<^verbatim>\<open>findById\<close>
  returns for its \<^verbatim>\<open>_id\<close> exists and is not active.\<close>

definition terminal_at :: "qr_doc list \<Rightarrow> oid \<Rightarrow> bool" where
  "terminal_at store i =
     (case qr_findById store i of None \<Rightarrow> False | Some s \<Rightarrow> qr_status s \<noteq> Active)"







subsection \<open>A small database for the examples\<close>

definition ex_admin :: req_user where "ex_admin = \<lparr>userId = 1, role = Admin\<rparr>"

definition ex_lecturer :: req_user where "ex_lecturer = \<lparr>userId = 2, role = Lecturer\<rparr>"

definition ex_student :: req_user where "ex_student = \<lparr>userId = 3, role = Student\<rparr>"

definition ex_outsider :: req_user where "ex_outsider = \<lparr>userId = 4, role = Student\<rparr>"

definition ex_s7 :: qr_doc where
  "ex_s7 =
     \<lparr>qr_id = 7, qr_sessionId = ''s7'', qr_courseId = 10, qr_createdBy = 2,
      qr_title = ''Week 1'', qr_notes = [], qr_status = Active, qr_expiresAt = 1000,
      qr_qrCodeData = Some ''payload'', qr_scannedCount = 0, qr_lastScannedAt = None\<rparr>"

definition ex_s8 :: qr_doc where
  "ex_s8 = ex_s7\<lparr>qr_id := 8, qr_sessionId := ''s8'', qr_status := Cancelled\<rparr>"

definition ex_record :: att_doc where
  "ex_record =
     \<lparr>att_id = 50, att_studentId = 3, att_courseId = 10, att_date = 0, att_status = Present,
      att_notes = Some ''old'', att_markedBy = 2, att_qrSessionId = Some 7, att_updatedAt = 5\<rparr>"

definition ex_course :: course where
  "ex_course = \<lparr>c_id = 10, c_name = ''Logic'', c_code = ''CS101'', c_lecturer = Some 2,
                 c_students = [\<lparr>e_student = 3\<rparr>]\<rparr>"

definition ex_db :: db where
  "ex_db =
     \<lparr>db_users = [\<lparr>u_id = 1, u_name = ''Ada'', u_role = Admin, u_isActive = True\<rparr>,
                  \<lparr>u_id = 2, u_name = ''Lee'', u_role = Lecturer, u_isActive = True\<rparr>,
                  \<lparr>u_id = 3, u_name = ''Sam'', u_role = Student, u_isActive = True\<rparr>,
                  \<lparr>u_id = 4, u_name = ''Tom'', u_role = Student, u_isActive = True\<rparr>],
      db_courses = [ex_course],
      db_qrs = [ex_s7, ex_s8],
      db_attendance = [ex_record]\<rparr>"

text \<open>The payload issued for session 7, and the same database after session 7 has been
  expired by hand at time 500.\<close>

definition ex_payload :: qr_payload where
  "ex_payload = \<lparr>p_sessionId = Some 7, p_courseId = Some 10, p_expiresAt = Some 1000\<rparr>"

definition ex_db_expired :: db where
  "ex_db_expired = ex_db\<lparr>db_qrs := [ex_s7\<lparr>qr_status := Expired, qr_expiresAt := 500\<rparr>, ex_s8]\<rparr>"

definition ex_toDataURL :: "qr_payload \<Rightarrow> string option" where
  "ex_toDataURL p = Some ''data:image/png''"

definition ex_gen_query :: gen_query where
  "ex_gen_query = \<lparr>g_courseId = Some 10, g_duration = Some ''60'', g_title = None, g_notes = None\<rparr>"

definition ex_mark_query :: "oid \<Rightarrow> time \<Rightarrow> string \<Rightarrow> mark_query" where
  "ex_mark_query s t st =
     \<lparr>m_studentId = Some s, m_courseId = Some 10, m_date = DateOf t, m_status = Some st,
      m_notes = None\<rparr>"

definition ex_new_record :: att_doc where
  "ex_new_record =
     \<lparr>att_id = 51, att_studentId = 3, att_courseId = 10, att_date = 86400000,
      att_status = Present, att_notes = None, att_markedBy = 4, att_qrSessionId = None,
      att_updatedAt = 9000\<rparr>"


text \<open>The database with no attendance record yet.\<close>

definition ex_db_fresh :: db where
  "ex_db_fresh = ex_db\<lparr>db_attendance := []\<rparr>"

definition ex_ops :: "op list" where
  "ex_ops = [ExpireRoute 2000 2000 8 (Some ex_admin), MethodRecordScan 8 2100 2100,
             MethodCancel 7 2200, CleanupExpired 3000 3000]"

lemmas ex_defs = ex_db_def ex_s7_def ex_s8_def ex_record_def ex_course_def ex_payload_def
  ex_admin_def ex_lecturer_def ex_student_def ex_outsider_def ex_mark_query_def ex_gen_query_def
  ex_db_expired_def ex_new_record_def

lemmas find_defs = qr_findById_def qr_findById_opt_def course_findById_def
  course_findById_opt_def user_findById_def att_findOne_def

section \<open>Properties\<close>

subsection \<open>Auxiliary facts\<close>

lemma find_map_same:
  "(\<And>x. P (f x) = P x) \<Longrightarrow> find P (map f xs) = map_option f (find P xs)"
  by (induction xs) auto

lemma find_append_Some: "find P xs = Some x \<Longrightarrow> find P (xs @ ys) = Some x"
  by (induction xs) (auto split: if_splits)

lemma qr_findById_id: "qr_findById store i = Some s \<Longrightarrow> qr_id s = i"
  by (auto simp: qr_findById_def find_Some_iff)

lemma qr_pre_save_id [simp]: "qr_id (qr_pre_save t d) = qr_id d"
  by (simp add: qr_pre_save_def)

lemma qr_pre_save_status:
  "qr_status d \<noteq> Active \<Longrightarrow> qr_status (qr_pre_save t d) \<noteq> Active"
  by (simp add: qr_pre_save_def)

text \<open>A string is never strictly equal to \<^verbatim>\<open>req.user.userId\<close>, whatever the identifiers:
  the comparison in \<^verbatim>\<open>some\<close> is false for every enrolled student.\<close>

lemma some_student_never: "\<not> some_student c u"
  by (simp add: some_student_def list_ex_iff)

lemma parseInt_60: "parseInt ''60'' = Some 60"
  by (simp add: parseInt_def is_space_def digit_of_def digits_value_def Let_def)

lemma generate_unchanged: "snd (generate toDataURL now tsave newId sid ru q d) = d"
  by (auto simp: generate_def requireLecturer_def requireRole_def qr_save_def qr_validate_def Let_def
      split: sum.splits option.splits if_splits)

lemma validate_unchanged: "snd (validate now u qrCode d) = d"
  by (simp add: validate_def split: qr_param.split option.split)

lemma validate_route_unchanged: "snd (validate_route now t qrCode d) = d"
  by (simp add: validate_route_def validate_unchanged split: sum.split)

subsection \<open>Saving a session past its expiry\<close>

text \<open>
  C10. Whenever a QR session document is written by \<^verbatim>\<open>save()\<close> and its expiry is
  already before the clock the hook reads, the document written has status
  \<^verbatim>\<open>expired\<close>; so no save writes a document that is active with an expiry already
  passed. \<open>w\<close> is the document written: appended for a new document, put in place of
  the stored one otherwise.
\<close>

theorem qr_save_forces_expired:
  "qr_save now isNew d store = Inr (w, store') \<Longrightarrow>
     (qr_expiresAt d < now \<longrightarrow> qr_status w = Expired) \<and>
     \<not> (qr_status w = Active \<and> qr_expiresAt w < now) \<and>
     store' = (if isNew then store @ [w]
               else map (\<lambda>e. if qr_id e = qr_id d then w else e) store)"
  by (auto simp: qr_save_def qr_pre_save_def Let_def split: if_splits)

theorem qr_save_forces_expired_witness:
  "qr_save 2000 False ex_s7 [ex_s7] =
     Inr (ex_s7\<lparr>qr_status := Expired\<rparr>, [ex_s7\<lparr>qr_status := Expired\<rparr>]) \<and>
   qr_expiresAt ex_s7 < 2000 \<and> qr_status ex_s7 = Active \<and>
   qr_status (ex_s7\<lparr>qr_status := Expired\<rparr>) = Expired"
proof -
  have s: "qr_save 2000 False ex_s7 [ex_s7] =
             Inr (ex_s7\<lparr>qr_status := Expired\<rparr>, [ex_s7\<lparr>qr_status := Expired\<rparr>])"
    by (simp add: qr_save_def qr_pre_save_def qr_validate_def ex_s7_def Let_def)
  from qr_save_forces_expired [OF s] s show ?thesis
    by (simp add: ex_s7_def)
qed

subsection \<open>Creating a session\<close>

text \<open>
  C4. The claim: a Create call with a duration in [1, 480], an existing course and a
  caller who is the course's lecturer or an administrator persists a new active
  session and returns it with a QR image. The handler does not: for the administrator
  the document it builds has no \<^verbatim>\<open>qrCodeData\<close>, which the schema requires, so
  \<^verbatim>\<open>save()\<close> rejects it and the reply is 500; for the lecturer of the course the
  ownership test compares a string with an \<^verbatim>\<open>ObjectId\<close> by \<^verbatim>\<open>!==\<close> and answers 403.
  Nothing is stored in either case.
\<close>

theorem generate_persists_nothing:
  "generate ex_toDataURL 0 0 99 ''abc'' (Some ex_admin) ex_gen_query ex_db =
     (Reply 500 False ''Server error while generating QR code'' None, ex_db) \<and>
   generate ex_toDataURL 0 0 99 ''abc'' (Some ex_lecturer) ex_gen_query ex_db =
     (Reply 403 False ''You can only generate QR codes for your own courses'' None, ex_db) \<and>
   c_lecturer ex_course = Some (userId ex_lecturer)"
  by (simp add: generate_def requireLecturer_def requireRole_def ex_defs find_defs
        falsy_def or_else_def parseInt_60 qr_save_def qr_validate_def)

text \<open>No call of the handler ever stores a session or answers 201.\<close>

lemma generate_never_creates:
  "snd (generate toDataURL now tsave newId sid ru q d) = d \<and>
   r_code (fst (generate toDataURL now tsave newId sid ru q d)) \<noteq> 201"
  by (auto simp: generate_def requireLecturer_def requireRole_def qr_save_def qr_validate_def Let_def
      split: sum.splits option.splits if_splits)

subsection \<open>Validating a scanned payload\<close>

text \<open>
  C2, as amended. For every stored session and every payload that refers to it and
  carries an expiry before the current time, \<^verbatim>\<open>GET /validate\<close> fails with
  ``QR code has expired'', whatever the stored status is; the reply carries the
  session id, the course id and the expiry of the payload; the database is left as
  it was (the stored status is not changed).
\<close>

theorem validate_payload_expired:
  "qr_findById_opt (db_qrs d) (p_sessionId p) = Some s \<Longrightarrow> p_expiresAt p = Some e \<Longrightarrow> e < now \<Longrightarrow>
   validate now u (QObject p) d =
     (Reply 400 False ''QR code has expired''
        (Some (ExpiredData (p_sessionId p) (p_courseId p) (p_expiresAt p))), d)"
  by (simp add: validate_def date_gt_def)

theorem validate_payload_expired_witness:
  "qr_findById_opt (db_qrs ex_db) (p_sessionId ex_payload) = Some ex_s7 \<and>
   p_expiresAt ex_payload = Some 1000 \<and> (1000 :: int) < 2000 \<and>
   validate 2000 ex_student (QObject ex_payload) ex_db =
     (Reply 400 False ''QR code has expired''
        (Some (ExpiredData (p_sessionId ex_payload) (p_courseId ex_payload) (p_expiresAt ex_payload))),
      ex_db)"
proof -
  have f: "qr_findById_opt (db_qrs ex_db) (p_sessionId ex_payload) = Some ex_s7"
    by (simp add: ex_defs find_defs)
  have e: "p_expiresAt ex_payload = Some 1000"
    by (simp add: ex_payload_def)
  from validate_payload_expired [OF f e, of 2000 ex_student] f e show ?thesis
    by simp
qed

text \<open>
  C2 as stated fails. At time 2000 session 7 is stored active with expiry 1000: the
  call fails as expired, but the stored status stays active. And once session 7 has
  been expired by hand at time 500 (stored expiry 500), a scan at time 600 of the
  payload issued for it fails with ``QR session is not active'', not as expired.
\<close>

theorem validate_expired_counterexample:
  "validate 2000 ex_student (QObject ex_payload) ex_db =
     (Reply 400 False ''QR code has expired''
        (Some (ExpiredData (Some 7) (Some 10) (Some 1000))), ex_db) \<and>
   qr_findById (db_qrs ex_db) 7 = Some ex_s7 \<and> qr_status ex_s7 = Active \<and>
   qr_expiresAt ex_s7 = 1000 \<and>
   snd (expire_route 500 500 7 (Some ex_admin) ex_db) = ex_db_expired \<and>
   map qr_expiresAt (db_qrs ex_db_expired) = [500, 1000] \<and>
   validate 600 ex_student (QObject ex_payload) ex_db_expired =
     (Reply 400 False ''QR session is not active''
        (Some (NotActiveData (Some 7) (Some 10) Expired)), ex_db_expired)"
  by (simp add: validate_def expire_route_def requireLecturer_def requireRole_def ex_defs find_defs
        date_gt_def qr_save_def qr_validate_def qr_pre_save_def Let_def)

text \<open>
  C3, as amended. \<^verbatim>\<open>GET /validate\<close> writes nothing: after every call, and so after
  every successful one, the database is the one before the call (no scan counter
  is incremented, no last-scan time set, no attendance record written). A
  successful call found the session of the payload stored active, with the expiry of
  the payload not passed, and replies with the descriptive fields of the session, its
  course and its creator.
\<close>

theorem validate_writes_nothing:
  "validate now u qrCode d = (r, d') \<Longrightarrow>
     d' = d \<and>
     (r_code r = 200 \<longrightarrow>
        (\<exists>p s pc pu. qrCode = QObject p \<and>
           qr_findById_opt (db_qrs d) (p_sessionId p) = Some s \<and>
           qr_status s = Active \<and> \<not> date_gt now (p_expiresAt p) \<and>
           course_findById (db_courses d) (qr_courseId s) = Some pc \<and>
           user_findById (db_users d) (qr_createdBy s) = Some pu \<and>
           r = Reply 200 True ''QR code is valid''
             (Some (ValidData \<lparr>v_sessionId = p_sessionId p, v_courseId = p_courseId p,
                                v_courseName = c_name pc, v_courseCode = c_code pc,
                                v_expiresAt = qr_expiresAt s, v_title = qr_title s,
                                v_notes = qr_notes s, v_createdBy = u_name pu\<rparr>))))"
  by (auto simp: validate_def split: qr_param.splits option.splits if_splits)

theorem validate_writes_nothing_witness:
  "validate 100 ex_admin (QObject ex_payload) ex_db =
     (Reply 200 True ''QR code is valid''
        (Some (ValidData \<lparr>v_sessionId = Some 7, v_courseId = Some 10,
                           v_courseName = ''Logic'', v_courseCode = ''CS101'',
                           v_expiresAt = 1000, v_title = ''Week 1'',
                           v_notes = [], v_createdBy = ''Lee''\<rparr>)), ex_db) \<and>
   (\<exists>s. qr_findById_opt (db_qrs ex_db) (p_sessionId ex_payload) = Some s \<and> qr_status s = Active)"
proof -
  have v: "validate 100 ex_admin (QObject ex_payload) ex_db =
     (Reply 200 True ''QR code is valid''
        (Some (ValidData \<lparr>v_sessionId = Some 7, v_courseId = Some 10,
                           v_courseName = ''Logic'', v_courseCode = ''CS101'',
                           v_expiresAt = 1000, v_title = ''Week 1'',
                           v_notes = [], v_createdBy = ''Lee''\<rparr>)), ex_db)"
    by (simp add: validate_def ex_defs find_defs date_gt_def)
  from validate_writes_nothing [OF v] v show ?thesis
    by auto
qed

text \<open>
  C3 as stated fails. Student 3 is enrolled in course 10, session 7 of that course
  is stored active with expiry 1000, and at time 100 student 3 scans the payload
  issued for it: a valid payload, an existing active unexpired session, an enrolled
  scanner. The call answers 403 and leaves the database as it was: the scan counter
  of session 7 is still 0, its last-scan time is still unset, and there is still no
  attendance record. Nor does a call that is answered 200 record anything: the
  lecturer's scan of the same payload at the same time succeeds and leaves the same
  database.
\<close>

theorem validate_enrolled_counterexample:
  "qr_findById (db_qrs ex_db_fresh) 7 = Some ex_s7 \<and>
   qr_status ex_s7 = Active \<and> qr_expiresAt ex_s7 = 1000 \<and> qr_courseId ex_s7 = 10 \<and>
   course_findById (db_courses ex_db_fresh) 10 = Some ex_course \<and>
   role ex_student = Student \<and>
   userId ex_student \<in> set (map e_student (c_students ex_course)) \<and>
   validate 100 ex_student (QObject ex_payload) ex_db_fresh =
     (Reply 403 False ''You are not enrolled in this course'' None, ex_db_fresh) \<and>
   validate 100 ex_lecturer (QObject ex_payload) ex_db_fresh =
     (Reply 200 True ''QR code is valid''
        (Some (ValidData \<lparr>v_sessionId = Some 7, v_courseId = Some 10,
                           v_courseName = ''Logic'', v_courseCode = ''CS101'',
                           v_expiresAt = 1000, v_title = ''Week 1'',
                           v_notes = [], v_createdBy = ''Lee''\<rparr>)), ex_db_fresh) \<and>
   qr_scannedCount ex_s7 = 0 \<and> qr_lastScannedAt ex_s7 = None \<and>
   db_attendance ex_db_fresh = []"
  by (simp add: validate_def ex_db_fresh_def ex_defs find_defs date_gt_def some_student_def)

text \<open>
  C8, as amended. For every call of \<^verbatim>\<open>GET /validate\<close> that reaches the enrolment
  check (the session exists, the expiry of the payload has not passed, the stored
  status is active) and whose scanner has the role student and is not among the
  students of the course named in the payload (or that course does not exist), the
  call fails with ``You are not enrolled in this course'' and the database is left
  as it was. Scanners of another role are not checked.
\<close>

theorem validate_student_not_enrolled:
  "qr_findById_opt (db_qrs d) (p_sessionId p) = Some s \<Longrightarrow> \<not> date_gt now (p_expiresAt p) \<Longrightarrow>
   qr_status s = Active \<Longrightarrow> role u = Student \<Longrightarrow>
   (case course_findById_opt (db_courses d) (p_courseId p) of
      None \<Rightarrow> True
    | Some c \<Rightarrow> userId u \<notin> set (map e_student (c_students c))) \<Longrightarrow>
   validate now u (QObject p) d =
     (Reply 403 False ''You are not enrolled in this course'' None, d)"
  by (simp add: validate_def some_student_never split: option.splits)

theorem validate_student_not_enrolled_witness:
  "qr_findById_opt (db_qrs ex_db) (p_sessionId ex_payload) = Some ex_s7 \<and>
   \<not> date_gt 100 (p_expiresAt ex_payload) \<and> qr_status ex_s7 = Active \<and>
   role ex_outsider = Student \<and>
   course_findById_opt (db_courses ex_db) (p_courseId ex_payload) = Some ex_course \<and>
   userId ex_outsider \<notin> set (map e_student (c_students ex_course)) \<and>
   validate 100 ex_outsider (QObject ex_payload) ex_db =
     (Reply 403 False ''You are not enrolled in this course'' None, ex_db)"
proof -
  have f: "qr_findById_opt (db_qrs ex_db) (p_sessionId ex_payload) = Some ex_s7"
    by (simp add: ex_defs find_defs)
  have e: "\<not> date_gt 100 (p_expiresAt ex_payload)"
    by (simp add: ex_payload_def date_gt_def)
  have a: "qr_status ex_s7 = Active" by (simp add: ex_s7_def)
  have r: "role ex_outsider = Student" by (simp add: ex_outsider_def)
  have c: "course_findById_opt (db_courses ex_db) (p_courseId ex_payload) = Some ex_course"
    by (simp add: ex_defs find_defs)
  have n: "userId ex_outsider \<notin> set (map e_student (c_students ex_course))"
    by (simp add: ex_defs)
  have c': "case course_findById_opt (db_courses ex_db) (p_courseId ex_payload) of
              None \<Rightarrow> True
            | Some c \<Rightarrow> userId ex_outsider \<notin> set (map e_student (c_students c))"
    using c n by simp
  from validate_student_not_enrolled [OF f e a r c'] f e a r c n show ?thesis
    by simp
qed

text \<open>
  C8 as stated fails: the lecturer (user 2) is not among the students of course 10,
  and the lecturer's scan of the payload of session 7 succeeds.
\<close>

theorem validate_not_enrolled_counterexample:
  "r_code (fst (validate 100 ex_lecturer (QObject ex_payload) ex_db)) = 200 \<and>
   course_findById (db_courses ex_db) 10 = Some ex_course \<and>
   qr_courseId ex_s7 = 10 \<and>
   userId ex_lecturer \<notin> set (map e_student (c_students ex_course))"
  by (simp add: validate_def ex_defs find_defs date_gt_def)

subsection \<open>Expiring a session by hand\<close>

text \<open>
  C7, as amended. \<^verbatim>\<open>PUT /:id/expire\<close> called by an administrator on a stored session
  that is already in a terminal state, and whose document passes the validators of
  the schema, succeeds and is not a no-op: it writes status \<^verbatim>\<open>expired\<close> and sets the
  expiry to the current time, leaving the other fields of the session as they were;
  every other session is untouched.
\<close>

theorem expire_terminal_overwrites:
  "ru = Some u \<Longrightarrow> role u = Admin \<Longrightarrow> qr_findById (db_qrs d) i = Some s \<Longrightarrow>
   qr_status s \<noteq> Active \<Longrightarrow> qr_validate s \<Longrightarrow>
   expire_route now tsave i ru d =
     (Reply 200 True ''QR session expired successfully''
        (Some (s\<lparr>qr_status := Expired, qr_expiresAt := now\<rparr>)),
      d\<lparr>db_qrs := map (\<lambda>e. if qr_id e = i then s\<lparr>qr_status := Expired, qr_expiresAt := now\<rparr> else e)
                       (db_qrs d)\<rparr>)"
proof -
  assume a: "ru = Some u" "role u = Admin" "qr_findById (db_qrs d) i = Some s" "qr_validate s"
  have i: "qr_id s = i"
    using a(3) by (rule qr_findById_id)
  have v: "qr_validate (s\<lparr>qr_status := Expired, qr_expiresAt := now\<rparr>)"
    using a(4) by (simp add: qr_validate_def)
  show ?thesis
    using a(1,2,3) i v
    by (simp add: expire_route_def requireLecturer_def requireRole_def qr_save_def qr_pre_save_def Let_def)
qed

theorem expire_terminal_overwrites_witness:
  "role ex_admin = Admin \<and> qr_findById (db_qrs ex_db) 8 = Some ex_s8 \<and>
   qr_status ex_s8 \<noteq> Active \<and> qr_validate ex_s8 \<and>
   expire_route 2000 2000 8 (Some ex_admin) ex_db =
     (Reply 200 True ''QR session expired successfully''
        (Some (ex_s8\<lparr>qr_status := Expired, qr_expiresAt := 2000\<rparr>)),
      ex_db\<lparr>db_qrs := [ex_s7, ex_s8\<lparr>qr_status := Expired, qr_expiresAt := 2000\<rparr>]\<rparr>)"
proof -
  have r: "role ex_admin = Admin" by (simp add: ex_admin_def)
  have f: "qr_findById (db_qrs ex_db) 8 = Some ex_s8" by (simp add: ex_defs find_defs)
  have t: "qr_status ex_s8 \<noteq> Active" by (simp add: ex_defs)
  have v: "qr_validate ex_s8" by (simp add: ex_defs qr_validate_def)
  have m: "map (\<lambda>e. if qr_id e = 8 then ex_s8\<lparr>qr_status := Expired, qr_expiresAt := 2000\<rparr> else e)
             (db_qrs ex_db) = [ex_s7, ex_s8\<lparr>qr_status := Expired, qr_expiresAt := 2000\<rparr>]"
    by (simp add: ex_defs)
  from expire_terminal_overwrites [OF refl r f t v, of 2000 2000] r f t v m show ?thesis
    by simp
qed

text \<open>
  C7 as stated fails: session 8 is stored cancelled with expiry 1000; after the
  administrator's Expire at time 2000 it is stored expired with expiry 2000.
\<close>

theorem expire_terminal_counterexample:
  "qr_findById (db_qrs ex_db) 8 = Some ex_s8 \<and>
   qr_status ex_s8 = Cancelled \<and> qr_expiresAt ex_s8 = 1000 \<and>
   r_code (fst (expire_route 2000 2000 8 (Some ex_admin) ex_db)) = 200 \<and>
   map_option qr_status (qr_findById (db_qrs (snd (expire_route 2000 2000 8 (Some ex_admin) ex_db))) 8)
     = Some Expired \<and>
   map_option qr_expiresAt (qr_findById (db_qrs (snd (expire_route 2000 2000 8 (Some ex_admin) ex_db))) 8)
     = Some 2000"
  by (simp add: expire_route_def requireLecturer_def requireRole_def ex_defs find_defs
        qr_save_def qr_validate_def qr_pre_save_def Let_def)

subsection \<open>Marking attendance\<close>

lemma att_findOne_props:
  "att_findOne store s c t = Some a \<Longrightarrow>
     att_studentId a = s \<and> att_courseId a = c \<and> att_date a = t \<and> a \<in> set store"
  by (auto simp: att_findOne_def find_Some_iff)

lemma att_status_of_not_falsy: "att_status_of (or_else p []) = Some st \<Longrightarrow> \<not> falsy p"
  by (auto simp: falsy_def or_else_def att_status_of_def split: option.splits)

lemma att_findOne_after_update:
  "att_findOne (map (\<lambda>e. if att_id e = i
                          then e\<lparr>att_status := st, att_notes := n, att_updatedAt := now\<rparr>
                          else e) store) s c t =
   map_option (\<lambda>e. if att_id e = i
                          then e\<lparr>att_status := st, att_notes := n, att_updatedAt := now\<rparr>
                          else e) (att_findOne store s c t)"
  unfolding att_findOne_def by (rule find_map_same) simp

text \<open>The handler either stops at one of its checks, leaving the database, or reaches
  its second half.\<close>

lemma mark_shape:
  "snd (mark tz now newId u q d) = d \<and> r_code (fst (mark tz now newId u q d)) \<in> {400, 404, 500} \<or>
   (\<exists>s c t st. mark tz now newId u q d = mark_upsert tz now newId u s c t st (m_notes q) d)"
  by (auto simp add: mark_def split: option.split date_param.split)

lemma mark_upsert_code:
  "r_code (fst (mark_upsert tz now newId u s c t st n d)) \<in> {200, 201, 500}"
  by (simp add: mark_upsert_def split: option.split sum.split prod.split)

lemma mark_upsert_failure_unchanged:
  "r_code (fst (mark_upsert tz now newId u s c t st n d)) \<notin> {200, 201} \<longrightarrow>
   snd (mark_upsert tz now newId u s c t st n d) = d"
  by (simp add: mark_upsert_def split: option.split sum.split prod.split)

lemma mark_upsert_role_irrelevant:
  "mark_upsert tz now newId (u\<lparr>role := r'\<rparr>) s c t st n d = mark_upsert tz now newId u s c t st n d"
  by (cases "att_findOne (db_attendance d) s c t") (simp_all add: mark_upsert_def)

lemma mark_code: "r_code (fst (mark tz now newId u q d)) \<in> {200, 201, 400, 404, 500}"
  using mark_shape [of tz now newId u q d]
proof (elim disjE exE)
  fix s c t st
  assume e: "mark tz now newId u q d = mark_upsert tz now newId u s c t st (m_notes q) d"
  show ?thesis
    using mark_upsert_code [of tz now newId u s c t st "m_notes q" d] by (auto simp add: e)
qed auto

lemma mark_failure_unchanged:
  "r_code (fst (mark tz now newId u q d)) \<notin> {200, 201} \<longrightarrow> snd (mark tz now newId u q d) = d"
  using mark_shape [of tz now newId u q d]
proof (elim disjE exE)
  fix s c t st
  assume e: "mark tz now newId u q d = mark_upsert tz now newId u s c t st (m_notes q) d"
  show ?thesis
    using mark_upsert_failure_unchanged [of tz now newId u s c t st "m_notes q" d] by (simp add: e)
qed simp

lemma mark_role_irrelevant: "mark tz now newId (u\<lparr>role := r'\<rparr>) q d = mark tz now newId u q d"
  by (simp add: mark_def mark_upsert_role_irrelevant split: option.split date_param.split)

lemma authenticateToken_code: "authenticateToken us t = Inl r \<Longrightarrow> r_code r = 401"
  by (auto simp: authenticateToken_def split: token.splits option.splits if_splits)

text \<open>
  C9, as amended. \<^verbatim>\<open>GET /mark\<close> checks no right to mark: behind authentication it
  never answers 403, and its reply and its effect do not depend on the role of the
  caller, so a student marks as a lecturer or an administrator does. A call that
  does not answer 200 or 201 creates and modifies no record.
\<close>

theorem mark_no_authorization:
  "r_code (fst (mark_route tz now newId t q d)) \<noteq> 403 \<and>
   mark tz now newId (u\<lparr>role := r'\<rparr>) q d = mark tz now newId u q d \<and>
   (r_code (fst (mark_route tz now newId t q d)) \<notin> {200, 201} \<longrightarrow>
      snd (mark_route tz now newId t q d) = d)"
proof (intro conjI)
  show "r_code (fst (mark_route tz now newId t q d)) \<noteq> 403"
  proof (cases "authenticateToken (db_users d) t :: att_doc reply + req_user")
    case (Inl r)
    then show ?thesis using authenticateToken_code [OF Inl] by (simp add: mark_route_def)
  next
    case (Inr v)
    then show ?thesis using mark_code [of tz now newId v q d] by (auto simp add: mark_route_def)
  qed
  show "mark tz now newId (u\<lparr>role := r'\<rparr>) q d = mark tz now newId u q d"
    by (rule mark_role_irrelevant)
  show "r_code (fst (mark_route tz now newId t q d)) \<notin> {200, 201} \<longrightarrow>
      snd (mark_route tz now newId t q d) = d"
    using mark_failure_unchanged by (simp add: mark_route_def split: sum.split)
qed

theorem mark_no_authorization_witness:
  "r_code (fst (mark_route 0 9000 51 (Decoded 4) (ex_mark_query 99 86400000 ''present'') ex_db)) = 404 \<and>
   snd (mark_route 0 9000 51 (Decoded 4) (ex_mark_query 99 86400000 ''present'') ex_db) = ex_db \<and>
   mark 0 9000 51 (ex_outsider\<lparr>role := Admin\<rparr>) (ex_mark_query 3 86400000 ''present'') ex_db =
     mark 0 9000 51 ex_outsider (ex_mark_query 3 86400000 ''present'') ex_db"
proof -
  have c: "r_code (fst (mark_route 0 9000 51 (Decoded 4) (ex_mark_query 99 86400000 ''present'') ex_db)) = 404"
    by (simp add: mark_route_def authenticateToken_def mark_def ex_defs find_defs
          falsy_def or_else_def att_status_of_def)
  from mark_no_authorization [where tz = 0 and now = 9000 and newId = 51 and t = "Decoded 4"
      and q = "ex_mark_query 99 86400000 ''present''" and d = ex_db and u = ex_outsider and r' = Admin] c
  have "snd (mark_route 0 9000 51 (Decoded 4) (ex_mark_query 99 86400000 ''present'') ex_db) = ex_db"
    by simp
  with c mark_no_authorization [where tz = 0 and now = 9000 and newId = 51 and t = "Decoded 4"
      and q = "ex_mark_query 3 86400000 ''present''" and d = ex_db and u = ex_outsider and r' = Admin]
  show ?thesis by simp
qed

text \<open>
  C9 as stated fails: user 4, a student who is neither the lecturer of course 10 nor
  an administrator, marks student 3 present in course 10; the call answers 201 and
  the record is created, marked by user 4.
\<close>

theorem mark_by_student_counterexample:
  "mark_route 0 9000 51 (Decoded 4) (ex_mark_query 3 86400000 ''present'') ex_db =
     (Reply 201 True ''Attendance marked successfully'' (Some ex_new_record),
      ex_db\<lparr>db_attendance := [ex_record, ex_new_record]\<rparr>) \<and>
   att_markedBy ex_new_record = 4 \<and>
   map_option u_role (user_findById (db_users ex_db) 4) = Some Student \<and>
   c_lecturer ex_course = Some 2"
  by (simp add: mark_route_def authenticateToken_def mark_def mark_upsert_def ex_defs find_defs
        falsy_def or_else_def att_status_of_def att_save_new_def att_validate_def att_key_def
        startOfDay_def Let_def)

text \<open>
  C5, as amended. For every Mark call whose student, course and date are those of a
  stored record (the date as it is stored), with an existing student and course, a
  status of the enumeration and a note that passes the length validator, the call
  succeeds with 200 and updates that record in place: its status is replaced and its
  update time set; its note is replaced only when the call gives a non-empty note and
  is kept otherwise; the marking actor and the session reference of every record stay
  as they were; no record is added and no key changes.
\<close>

theorem mark_existing_updates:
  assumes q: "m_studentId q = Some sid" "m_courseId q = Some cid" "m_date q = DateOf t"
    and st: "att_status_of (or_else (m_status q) []) = Some st"
    and stu: "user_findById (db_users d) sid = Some stu" "u_role stu = Student"
    and crs: "course_findById (db_courses d) cid = Some c"
    and ex: "att_findOne (db_attendance d) sid cid t = Some a"
    and n: "n = (if falsy (m_notes q) then att_notes a else map_option js_trim (m_notes q))"
    and v: "case n of None \<Rightarrow> True | Some x \<Rightarrow> length x \<le> 200"
  shows "\<exists>d'. mark tz now newId u q d =
            (Reply 200 True ''Attendance updated successfully''
               (Some (a\<lparr>att_date := startOfDay tz t, att_status := st, att_notes := n,
                        att_updatedAt := now\<rparr>)), d') \<and>
          att_findOne (db_attendance d') sid cid t =
            Some (a\<lparr>att_status := st, att_notes := n, att_updatedAt := now\<rparr>) \<and>
          map att_id (db_attendance d') = map att_id (db_attendance d) \<and>
          map att_key (db_attendance d') = map att_key (db_attendance d) \<and>
          map att_markedBy (db_attendance d') = map att_markedBy (db_attendance d) \<and>
          map att_qrSessionId (db_attendance d') = map att_qrSessionId (db_attendance d)"
proof -
  let ?a' = "a\<lparr>att_status := st, att_notes := n, att_updatedAt := now\<rparr>"
  let ?f = "\<lambda>e. if att_id e = att_id a
                 then e\<lparr>att_status := st, att_notes := n, att_updatedAt := now\<rparr> else e"
  let ?d' = "d\<lparr>db_attendance := map ?f (db_attendance d)\<rparr>"
  have a: "att_date a = t"
    using att_findOne_props [OF ex] by simp
  have nf: "\<not> falsy (m_status q)"
    using st by (rule att_status_of_not_falsy)
  have val: "att_validate ?a'"
    using v by (simp add: att_validate_def)
  have sv: "att_save_existing tz ?a' (db_attendance d) =
              Inr (?a'\<lparr>att_date := startOfDay tz t\<rparr>, map ?f (db_attendance d))"
    using val a by (simp add: att_save_existing_def)
  have up: "mark_upsert tz now newId u sid cid t st (m_notes q) d =
              (Reply 200 True ''Attendance updated successfully''
                 (Some (?a'\<lparr>att_date := startOfDay tz t\<rparr>)), ?d')"
    using ex sv n by (simp add: mark_upsert_def)
  have m: "mark tz now newId u q d =
              (Reply 200 True ''Attendance updated successfully''
                 (Some (?a'\<lparr>att_date := startOfDay tz t\<rparr>)), ?d')"
    using q nf st stu crs up by (simp add: mark_def)
  have f: "att_findOne (db_attendance ?d') sid cid t = Some ?a'"
    using ex by (simp add: att_findOne_after_update)
  have k: "map att_key (db_attendance ?d') = map att_key (db_attendance d)"
    by (simp add: att_key_def comp_def cong: map_cong)
  have i: "map att_id (db_attendance ?d') = map att_id (db_attendance d)"
    by (simp add: comp_def cong: map_cong)
  have mb: "map att_markedBy (db_attendance ?d') = map att_markedBy (db_attendance d)"
    by (simp add: comp_def cong: map_cong)
  have qs: "map att_qrSessionId (db_attendance ?d') = map att_qrSessionId (db_attendance d)"
    by (simp add: comp_def cong: map_cong)
  show ?thesis
    using m f k i mb qs by (intro exI [of _ ?d']) simp
qed

theorem mark_existing_updates_witness:
  "att_status_of (or_else (m_status (ex_mark_query 3 0 ''absent'')) []) = Some Absent \<and>
   map_option u_role (user_findById (db_users ex_db) 3) = Some Student \<and>
   course_findById (db_courses ex_db) 10 = Some ex_course \<and>
   att_findOne (db_attendance ex_db) 3 10 0 = Some ex_record \<and>
   (\<exists>d'. mark 0 9000 51 ex_admin (ex_mark_query 3 0 ''absent'') ex_db =
            (Reply 200 True ''Attendance updated successfully''
               (Some (ex_record\<lparr>att_date := startOfDay 0 0, att_status := Absent,
                                att_notes := Some ''old'', att_updatedAt := 9000\<rparr>)), d') \<and>
          att_findOne (db_attendance d') 3 10 0 =
            Some (ex_record\<lparr>att_status := Absent, att_notes := Some ''old'', att_updatedAt := 9000\<rparr>) \<and>
          map att_id (db_attendance d') = map att_id (db_attendance ex_db) \<and>
          map att_key (db_attendance d') = map att_key (db_attendance ex_db) \<and>
          map att_markedBy (db_attendance d') = map att_markedBy (db_attendance ex_db) \<and>
          map att_qrSessionId (db_attendance d') = map att_qrSessionId (db_attendance ex_db))"
proof -
  have q: "m_studentId (ex_mark_query 3 0 ''absent'') = Some 3"
    "m_courseId (ex_mark_query 3 0 ''absent'') = Some 10"
    "m_date (ex_mark_query 3 0 ''absent'') = DateOf 0"
    by (simp_all add: ex_mark_query_def)
  have st: "att_status_of (or_else (m_status (ex_mark_query 3 0 ''absent'')) []) = Some Absent"
    by (simp add: ex_mark_query_def or_else_def att_status_of_def)
  have stu: "user_findById (db_users ex_db) 3 =
               Some \<lparr>u_id = 3, u_name = ''Sam'', u_role = Student, u_isActive = True\<rparr>"
    by (simp add: ex_defs find_defs)
  have r: "u_role \<lparr>u_id = 3, u_name = ''Sam'', u_role = Student, u_isActive = True\<rparr> = Student"
    by simp
  have crs: "course_findById (db_courses ex_db) 10 = Some ex_course"
    by (simp add: ex_defs find_defs)
  have ex: "att_findOne (db_attendance ex_db) 3 10 0 = Some ex_record"
    by (simp add: ex_defs find_defs)
  have n: "Some ''old'' = (if falsy (m_notes (ex_mark_query 3 0 ''absent'')) then att_notes ex_record
              else map_option js_trim (m_notes (ex_mark_query 3 0 ''absent'')))"
    by (simp add: ex_defs falsy_def)
  have v: "case Some ''old'' of None \<Rightarrow> True | Some x \<Rightarrow> length x \<le> 200"
    by simp
  from mark_existing_updates [OF q st stu r crs ex n v, of 0 9000 51 ex_admin] st stu crs ex
  show ?thesis by simp
qed

text \<open>
  C5 as stated fails: the stored record of student 3 in course 10 on day 0 was marked
  by user 2, with note ``old'' and session 7. The administrator (user 1) marks the same
  triple absent, with no note and no session: the call succeeds, and the stored record
  has the new status but still the actor 2, the note ``old'' and the session 7.
\<close>

theorem mark_update_counterexample:
  "mark 0 9000 51 ex_admin (ex_mark_query 3 0 ''absent'') ex_db =
    (Reply 200 True ''Attendance updated successfully''
       (Some (ex_record\<lparr>att_status := Absent, att_updatedAt := 9000\<rparr>)),
     ex_db\<lparr>db_attendance := [ex_record\<lparr>att_status := Absent, att_updatedAt := 9000\<rparr>]\<rparr>) \<and>
   att_markedBy (ex_record\<lparr>att_status := Absent, att_updatedAt := 9000\<rparr>) = 2 \<and>
   att_notes (ex_record\<lparr>att_status := Absent, att_updatedAt := 9000\<rparr>) = Some ''old'' \<and>
   att_qrSessionId (ex_record\<lparr>att_status := Absent, att_updatedAt := 9000\<rparr>) = Some 7 \<and>
   userId ex_admin = 1 \<and> m_notes (ex_mark_query 3 0 ''absent'') = None"
  by (simp add: mark_def mark_upsert_def ex_defs find_defs
        falsy_def or_else_def att_status_of_def att_save_existing_def att_validate_def
        startOfDay_def Let_def)

subsection \<open>One attendance record per student, course and day\<close>


























subsection \<open>The state of a session never returns to active\<close>

lemma qr_save_existing_result:
  "qr_save t False d' store = Inr (w, store') \<Longrightarrow>
     w = qr_pre_save t d' \<and> store' = map (\<lambda>e. if qr_id e = qr_id d' then w else e) store"
  by (auto simp: qr_save_def Let_def split: if_splits)

lemma qr_findById_replace:
  "qr_id w = j \<Longrightarrow>
   qr_findById (map (\<lambda>e. if qr_id e = j then w else e) store) i =
   map_option (\<lambda>e. if qr_id e = j then w else e) (qr_findById store i)"
  unfolding qr_findById_def by (rule find_map_same) auto

text \<open>Saving a loaded document keeps every terminal session terminal, provided the
  document saved is active only if the stored session with its \<^verbatim>\<open>_id\<close> is.\<close>

lemma save_existing_terminal:
  assumes sv: "qr_save t False d' store = Inr (w, store')"
    and act: "qr_status d' = Active \<longrightarrow> \<not> terminal_at store (qr_id d')"
    and tm: "terminal_at store i"
  shows "terminal_at store' i"
proof -
  from qr_save_existing_result [OF sv]
  have w: "w = qr_pre_save t d'"
    and st: "store' = map (\<lambda>e. if qr_id e = qr_id d' then w else e) store" by simp_all
  have wid: "qr_id w = qr_id d'" using w by simp
  from tm obtain s where s: "qr_findById store i = Some s" "qr_status s \<noteq> Active"
    by (auto simp: terminal_at_def split: option.splits)
  have f: "qr_findById store' i = Some (if qr_id s = qr_id d' then w else s)"
    unfolding st using s(1) by (simp add: qr_findById_replace [OF wid])
  show ?thesis
  proof (cases "qr_id s = qr_id d'")
    case True
    then have "i = qr_id d'" using qr_findById_id [OF s(1)] by simp
    with act tm have "qr_status d' \<noteq> Active" by auto
    then have "qr_status w \<noteq> Active" unfolding w by (rule qr_pre_save_status)
    with f True show ?thesis by (simp add: terminal_at_def)
  next
    case False
    with f s(2) show ?thesis by (simp add: terminal_at_def)
  qed
qed

lemma on_loaded_terminal:
  assumes m: "\<And>s store. m s store = qr_save t False (g s) store"
    and g: "\<And>s. qr_id (g s) = qr_id s \<and> (qr_status (g s) = Active \<longrightarrow> qr_status s = Active)"
    and tm: "terminal_at (db_qrs d) i"
  shows "terminal_at (db_qrs (on_loaded m j d)) i"
proof (cases "qr_findById (db_qrs d) j")
  case None
  then show ?thesis using tm by (simp add: on_loaded_def)
next
  case (Some s)
  show ?thesis
  proof (cases "m s (db_qrs d)")
    case (Inl e)
    then show ?thesis using Some tm by (simp add: on_loaded_def)
  next
    case (Inr p)
    obtain w store' where p: "p = (w, store')" by (cases p)
    have sv: "qr_save t False (g s) (db_qrs d) = Inr (w, store')"
      using Inr p m by simp
    have js: "qr_id s = j" using qr_findById_id [OF Some] .
    have act: "qr_status (g s) = Active \<longrightarrow> \<not> terminal_at (db_qrs d) (qr_id (g s))"
      using g [of s] Some js by (simp add: terminal_at_def)
    from save_existing_terminal [OF sv act tm] show ?thesis
      using Some Inr p by (simp add: on_loaded_def)
  qed
qed

lemma expire_route_terminal:
  assumes tm: "terminal_at (db_qrs d) i"
  shows "terminal_at (db_qrs (snd (expire_route now tsave j ru d))) i"
proof (cases "requireLecturer ru :: qr_doc reply + req_user")
  case (Inl r)
  then show ?thesis using tm by (simp add: expire_route_def)
next
  case (Inr u)
  show ?thesis
  proof (cases "qr_findById (db_qrs d) j")
    case None
    then show ?thesis using tm Inr by (simp add: expire_route_def)
  next
    case (Some s)
    let ?d' = "s\<lparr>qr_status := Expired, qr_expiresAt := now\<rparr>"
    show ?thesis
    proof (cases "qr_save tsave False ?d' (db_qrs d)")
      case (Inl e)
      then show ?thesis using tm Inr Some by (simp add: expire_route_def)
    next
      case (Inr p)
      obtain w store' where p: "p = (w, store')" by (cases p)
      have "terminal_at store' i"
        by (rule save_existing_terminal [OF Inr [unfolded p] _ tm]) simp
      then show ?thesis
        using tm \<open>requireLecturer ru = Inr u\<close> Some Inr p by (simp add: expire_route_def)
    qed
  qed
qed

lemma cleanup_loop_terminal:
  "terminal_at store i \<Longrightarrow> terminal_at (snd (cleanup_loop t ss store)) i"
proof (induction ss arbitrary: store)
  case Nil
  then show ?case by simp
next
  case (Cons s ss)
  show ?case
  proof (cases "qr_save t False (s\<lparr>qr_status := Expired\<rparr>) store")
    case (Inl e)
    then show ?thesis using Cons.prems by simp
  next
    case (Inr p)
    obtain w store' where p: "p = (w, store')" by (cases p)
    have "terminal_at store' i"
      by (rule save_existing_terminal [OF Inr [unfolded p] _ Cons.prems]) simp
    from Cons.IH [OF this] show ?thesis using Inr p by simp
  qed
qed

lemma cleanupExpired_terminal:
  "terminal_at store i \<Longrightarrow> terminal_at (snd (cleanupExpired now t store)) i"
  using cleanup_loop_terminal [of store i t "filter (\<lambda>s. qr_status s = Active \<and> qr_expiresAt s < now) store"]
  by (auto simp: cleanupExpired_def Let_def split: prod.splits option.splits)

lemma mark_upsert_qrs: "db_qrs (snd (mark_upsert tz now newId u s c t st n d)) = db_qrs d"
  by (simp add: mark_upsert_def split: option.split sum.split prod.split)

lemma mark_qrs: "db_qrs (snd (mark tz now newId u q d)) = db_qrs d"
  using mark_shape [of tz now newId u q d] mark_upsert_qrs by auto

lemma mark_route_qrs: "db_qrs (snd (mark_route tz now newId t q d)) = db_qrs d"
  by (simp add: mark_route_def mark_qrs split: sum.split)

lemma exec_terminal:
  assumes tm: "terminal_at (db_qrs d) i"
  shows "terminal_at (db_qrs (exec toDataURL tz x d)) i"
proof (cases x)
  case (Generate now tsave newId sid ru q)
  then show ?thesis using tm by (simp add: generate_unchanged)
next
  case (Validate now t qrCode)
  then show ?thesis using tm by (simp add: validate_route_unchanged)
next
  case (ExpireRoute now tsave j ru)
  then show ?thesis using expire_route_terminal [OF tm] by simp
next
  case (Mark now newId t q)
  then show ?thesis using tm by (simp add: mark_route_qrs)
next
  case (MethodExpire j now tsave)
  have "terminal_at (db_qrs (on_loaded (qr_expire now tsave) j d)) i"
    by (rule on_loaded_terminal [where g = "\<lambda>s. s\<lparr>qr_status := Expired, qr_expiresAt := now\<rparr>" and t = tsave])
       (simp_all add: qr_expire_def tm)
  then show ?thesis using MethodExpire by simp
next
  case (MethodCancel j tsave)
  have "terminal_at (db_qrs (on_loaded (qr_cancel tsave) j d)) i"
    by (rule on_loaded_terminal [where g = "\<lambda>s. s\<lparr>qr_status := Cancelled\<rparr>" and t = tsave])
       (simp_all add: qr_cancel_def tm)
  then show ?thesis using MethodCancel by simp
next
  case (MethodRecordScan j now tsave)
  have "terminal_at (db_qrs (on_loaded (qr_recordScan now tsave) j d)) i"
    by (rule on_loaded_terminal
          [where g = "\<lambda>s. s\<lparr>qr_scannedCount := qr_scannedCount s + 1, qr_lastScannedAt := Some now\<rparr>"
             and t = tsave])
       (simp_all add: qr_recordScan_def tm)
  then show ?thesis using MethodRecordScan by simp
next
  case (CleanupExpired now tsave)
  then show ?thesis using cleanupExpired_terminal [OF tm] by simp
qed

lemma exec_all_terminal:
  "terminal_at (db_qrs d) i \<Longrightarrow> terminal_at (db_qrs (exec_all toDataURL tz ops d)) i"
  by (induction ops arbitrary: d) (simp_all add: exec_terminal)

text \<open>
  C6. The state of a session is monotonic: if the session stored under an \<^verbatim>\<open>_id\<close> is
  expired or cancelled, then after every sequence of operations (creating sessions,
  validating scans, expiring by route or by method, cancelling, recording scans,
  the clean-up sweep, marking attendance, each with the saves it performs) a session
  is still stored under that \<^verbatim>\<open>_id\<close> and it is not active.
\<close>

theorem session_state_monotonic:
  assumes "qr_findById (db_qrs d) i = Some s" and "qr_status s \<noteq> Active"
  shows "\<exists>s'. qr_findById (db_qrs (exec_all toDataURL tz ops d)) i = Some s' \<and>
              qr_status s' \<noteq> Active"
proof -
  have "terminal_at (db_qrs d) i" using assms by (simp add: terminal_at_def)
  from exec_all_terminal [OF this, of toDataURL tz ops] show ?thesis
    by (auto simp: terminal_at_def split: option.splits)
qed

theorem session_state_monotonic_witness:
  "qr_findById (db_qrs ex_db) 8 = Some ex_s8 \<and> qr_status ex_s8 = Cancelled \<and>
   (\<exists>s'. qr_findById (db_qrs (exec_all ex_toDataURL 0 ex_ops ex_db)) 8 = Some s' \<and>
         qr_status s' \<noteq> Active)"
proof -
  have f: "qr_findById (db_qrs ex_db) 8 = Some ex_s8" by (simp add: ex_defs find_defs)
  have c: "qr_status ex_s8 = Cancelled" by (simp add: ex_defs)
  then have t: "qr_status ex_s8 \<noteq> Active" by simp
  from session_state_monotonic [OF f t, of ex_toDataURL 0 ex_ops] f c show ?thesis
    by simp
qed

end
